theory Spec2Isabelle
  imports Main "HOL-Library.Word"
begin

section \<open>Machine types of the Go program\<close>

text \<open>
  Go's sized integers are words; \<open>+\<close> wraps as Go's does, \<open>sint\<close> reads the signed value
  and \<open><s\<close> is the signed comparison. Go's \<open>int\<close> is the 64-bit integer of the platforms
  the client runs on, and \<open>time.Duration\<close> is an \<open>int64\<close> count of nanoseconds.
  A conversion \<open>int32(x)\<close> of an \<open>int64\<close> keeps the low 32 bits (\<open>ucast\<close> to the shorter
  word); \<open>int(x)\<close> of an \<open>int32\<close> extends the sign (\<open>scast\<close>).
\<close>

type_synonym int8 = "8 word"
type_synonym int16 = "16 word"
type_synonym int32 = "32 word"
type_synonym int64 = "64 word"
type_synonym go_int = "64 word"
type_synonym Duration = "64 word"
type_synonym byte = "8 word"

section \<open>Errors\<close>

text \<open>
  \<open>protocol.ErrNoTopic\<close> and \<open>protocol.ErrNoPartition\<close> are the two sentinel errors
  \<open>Fetch\<close> and \<open>MultiFetch\<close> name; \<open>TransportError\<close> stands for whatever \<open>roundTrip\<close>
  fails with; \<open>KafkaError\<close> is a broker error code with its message; \<open>Wrapped p e\<close> is
  \<open>fmt.Errorf(p + ": %w", e)\<close>.
\<close>

datatype error =
    ErrNoTopic
  | ErrNoPartition
  | TransportError string
  | KafkaError int16 string
  | Wrapped string error

text \<open>\<open>errors.Is\<close>: the target is the error itself or is reached by unwrapping.\<close>

fun errors_Is :: "error \<Rightarrow> error \<Rightarrow> bool" where
  "errors_Is (Wrapped p e) target = (Wrapped p e = target \<or> errors_Is e target)"
| "errors_Is e target = (e = target)"

text \<open>
  Modelled from the spec: \<open>makeError\<close> is declared outside \<open>fetch.go\<close>. The Error Mapper
  takes a numeric broker error code and an optional message and produces a structured
  error, or nil for code 0. Nil is \<open>None\<close>.
\<close>

definition makeError :: "int16 \<Rightarrow> string \<Rightarrow> error option" where
  "makeError code message = (if code = 0 then None else Some (KafkaError code message))"

section \<open>Record readers\<close>

text \<open>
  Modelled from the spec: the \<open>RecordReader\<close> interface and \<open>NewRecordReader\<close> are
  declared outside \<open>fetch.go\<close>. A reader is a single-pass cursor over the records of one
  batch; \<open>NewRecordReader()\<close> with no argument is the empty, immediately exhausted
  reader. A Go interface value may be nil: a field of that type is an \<open>option\<close>.
\<close>

record Record =
  Offset :: int64
  Key :: "byte list"
  Value :: "byte list"

datatype RecordReader = RecordReader (remaining: "Record list")

definition NewRecordReader :: RecordReader where
  "NewRecordReader = RecordReader []"

section \<open>The requests and responses of the client API\<close>

record FetchRequest =
  Addr :: string
  Topic :: string
  Partition :: go_int
  Offset :: int64
  MinBytes :: int64
  MaxBytes :: int64
  MaxWait :: Duration
  IsolationLevel :: int8

record FetchResponse =
  Throttle :: Duration
  Topic :: string
  Partition :: go_int
  HighWatermark :: int64
  LastStableOffset :: int64
  LogStartOffset :: int64
  Error :: "error option"
  Records :: "RecordReader option"

record FetchPartitionRequest =
  Partition :: go_int
  Offset :: int64
  MaxBytes :: int64

record FetchPartitionResponse =
  Partition :: go_int
  Error :: "error option"
  HighWatermark :: int64
  LastStableOffset :: int64
  LogStartOffset :: int64
  Records :: "RecordReader option"

text \<open>
  \<open>Requests\<close> is a Go map from topic names to lists of partition specs. \<open>MultiFetch\<close> only
  ranges over it, in the order the runtime picks: the field is the list of the map's
  entries in that order (a Go map holds each key once).
\<close>

record MultiFetchRequest =
  Addr :: string
  Requests :: "(string \<times> FetchPartitionRequest list) list"
  MinBytes :: int64
  MaxBytes :: int64
  MaxWait :: Duration
  IsolationLevel :: int8

text \<open>\<open>Responses\<close> is a Go map that may be nil: \<open>None\<close> is the nil map.\<close>

record MultiFetchResponse =
  Throttle :: Duration
  Responses :: "(string \<rightharpoonup> FetchPartitionResponse list) option"
  Error :: "error option"

section \<open>The messages of package \<open>protocol/fetch\<close>\<close>

text \<open>
  The types of \<open>fetchAPI\<close> are declared in another package; the records have
  the fields \<open>fetch.go\<close> reads and writes, with the types its conversions give them.
  A field that \<open>MultiFetch\<close> leaves out of its composite literal has Go's zero value.
  \<open>Topics\<close> of a response is a slice that \<open>MultiFetch\<close> compares with nil:
  \<open>None\<close> is the nil slice, and \<open>elems\<close> gives the elements either way.
\<close>

record RequestPartition =
  Partition :: int32
  CurrentLeaderEpoch :: int32
  FetchOffset :: int64
  LogStartOffset :: int64
  PartitionMaxBytes :: int32

record RequestTopic =
  Topic :: string
  Partitions :: "RequestPartition list"

record Request =
  ReplicaID :: int32
  MaxWaitTime :: int32
  MinBytes :: int32
  MaxBytes :: int32
  IsolationLevel :: int8
  SessionID :: int32
  SessionEpoch :: int32
  Topics :: "RequestTopic list"

record ResponsePartition =
  Partition :: int32
  ErrorCode :: int16
  HighWatermark :: int64
  LastStableOffset :: int64
  LogStartOffset :: int64
  RecordSet_Records :: "RecordReader option"

record ResponseTopic =
  Topic :: string
  Partitions :: "ResponsePartition list"

record Response =
  ThrottleTimeMs :: int32
  ErrorCode :: int16
  Topics :: "ResponseTopic list option"

definition elems :: "'a list option \<Rightarrow> 'a list" where
  "elems s = (case s of None \<Rightarrow> [] | Some xs \<Rightarrow> xs)"

section \<open>The client and its transport\<close>

text \<open>
  What \<open>fetch.go\<close> uses and does not declare is a parameter of the model:
  \<^item> \<open>defaultMaxWait\<close>, \<open>milliseconds\<close> and \<open>makeDuration\<close>, declarations of the package;
  \<open>milliseconds\<close> turns a duration into the \<open>int32\<close> of the wire and \<open>makeDuration\<close>
  turns the throttle time of the wire into a duration;
  \<^item> \<open>timeout\<close>, the duration that \<open>c.timeout(ctx, math.MaxInt64)\<close> returns in this call:
  what is left of the context's deadline;
  \<^item> \<open>reply\<close>, what the broker behind \<open>c.roundTrip\<close> answers to a request: an error, or
  the decoded response (\<open>roundTrip\<close> answers a fetch request with a fetch response, so
  the type assertion of \<open>Fetch\<close> does not fail).
\<close>

record package =
  defaultMaxWait :: Duration
  milliseconds :: "Duration \<Rightarrow> int32"
  makeDuration :: "int32 \<Rightarrow> Duration"

record Client =
  timeout :: Duration
  reply :: "Request \<Rightarrow> error + Response"

text \<open>
  The transport is the only effect: its state is the list of the requests sent so far,
  oldest first. One \<open>roundTrip\<close> sends one request and returns the broker's answer.
\<close>

type_synonym transport = "Request list"

definition roundTrip :: "Client \<Rightarrow> string \<Rightarrow> Request \<Rightarrow> transport \<Rightarrow> (error + Response) \<times> transport" where
  "roundTrip c addr req sent = (reply c req, sent @ [req])"

section \<open>\<open>Fetch\<close>\<close>

definition FetchRequest_maxWait :: "package \<Rightarrow> FetchRequest \<Rightarrow> Duration" where
  "FetchRequest_maxWait pkg req =
     (if 0 <s FetchRequest.MaxWait req then FetchRequest.MaxWait req else defaultMaxWait pkg)"

text \<open>The first four lines of \<open>Fetch\<close>: the timeout that goes on the wire.\<close>

definition Fetch_timeout :: "package \<Rightarrow> Client \<Rightarrow> FetchRequest \<Rightarrow> Duration" where
  "Fetch_timeout pkg c req =
     (let timeout = Client.timeout c;
          maxWait = FetchRequest_maxWait pkg req
      in if maxWait <s timeout then maxWait else timeout)"

text \<open>
  The composite literal that \<open>Fetch\<close> hands to \<open>roundTrip\<close>; \<open>d\<close> is the value of its
  variable \<open>timeout\<close>.
\<close>

definition Fetch_request :: "package \<Rightarrow> Duration \<Rightarrow> FetchRequest \<Rightarrow> Request" where
  "Fetch_request pkg d req =
     \<lparr>Request.ReplicaID = - 1,
      MaxWaitTime = milliseconds pkg d,
      MinBytes = ucast (FetchRequest.MinBytes req),
      MaxBytes = ucast (FetchRequest.MaxBytes req),
      IsolationLevel = FetchRequest.IsolationLevel req,
      SessionID = - 1,
      SessionEpoch = - 1,
      Topics = [\<lparr>RequestTopic.Topic = FetchRequest.Topic req,
        Partitions = [\<lparr>RequestPartition.Partition = ucast (FetchRequest.Partition req),
          CurrentLeaderEpoch = - 1,
          FetchOffset = FetchRequest.Offset req,
          LogStartOffset = - 1,
          PartitionMaxBytes = ucast (FetchRequest.MaxBytes req)\<rparr>]\<rparr>]\<rparr>"

text \<open>
  \<open>Fetch\<close> sends one request and reads the first partition of the first topic of the
  answer. A Go result \<open>(nil, err)\<close> is \<open>Inl err\<close>, a result \<open>(ret, nil)\<close> is \<open>Inr ret\<close>.
\<close>

definition Fetch :: "package \<Rightarrow> Client \<Rightarrow> FetchRequest \<Rightarrow> transport \<Rightarrow> (error + FetchResponse) \<times> transport" where
  "Fetch pkg c req sent =
     (let timeout = Fetch_timeout pkg c req;
          (m, sent') = roundTrip c (FetchRequest.Addr req) (Fetch_request pkg timeout req) sent
      in case m of
           Inl err \<Rightarrow> (Inl (Wrapped ''kafka.(*Client).Fetch'' err), sent')
         | Inr res \<Rightarrow>
             (case elems (Response.Topics res) of
                [] \<Rightarrow> (Inl (Wrapped ''kafka.(*Client).Fetch'' ErrNoTopic), sent')
              | topic # _ \<Rightarrow>
                  (case ResponseTopic.Partitions topic of
                     [] \<Rightarrow> (Inl (Wrapped ''kafka.(*Client).Fetch'' ErrNoPartition), sent')
                   | part # _ \<Rightarrow>
                       (let ret = \<lparr>FetchResponse.Throttle = makeDuration pkg (ThrottleTimeMs res),
                              Topic = ResponseTopic.Topic topic,
                              Partition = scast (ResponsePartition.Partition part),
                              HighWatermark = ResponsePartition.HighWatermark part,
                              LastStableOffset = ResponsePartition.LastStableOffset part,
                              LogStartOffset = ResponsePartition.LogStartOffset part,
                              Error = makeError (Response.ErrorCode res) [],
                              Records = RecordSet_Records part\<rparr>;
                            ret = (if ResponsePartition.ErrorCode part \<noteq> 0
                                   then ret\<lparr>FetchResponse.Error :=
                                          makeError (ResponsePartition.ErrorCode part) []\<rparr>
                                   else ret);
                            ret = (if FetchResponse.Records ret = None
                                   then ret\<lparr>FetchResponse.Records := Some NewRecordReader\<rparr>
                                   else ret)
                        in (Inr ret, sent')))))"

section \<open>\<open>MultiFetch\<close>\<close>

definition MultiFetchRequest_maxWait :: "package \<Rightarrow> MultiFetchRequest \<Rightarrow> Duration" where
  "MultiFetchRequest_maxWait pkg req =
     (if 0 <s MultiFetchRequest.MaxWait req then MultiFetchRequest.MaxWait req
      else defaultMaxWait pkg)"

definition MultiFetch_timeout :: "package \<Rightarrow> Client \<Rightarrow> MultiFetchRequest \<Rightarrow> Duration" where
  "MultiFetch_timeout pkg c req =
     (let timeout = Client.timeout c;
          maxWait = MultiFetchRequest_maxWait pkg req
      in if maxWait <s timeout then maxWait else timeout)"

text \<open>The body of the inner loop over the partition specs of one topic.\<close>

definition MultiFetch_requestPartition :: "MultiFetchRequest \<Rightarrow> FetchPartitionRequest \<Rightarrow> RequestPartition" where
  "MultiFetch_requestPartition req part =
     (let maxBytes = FetchPartitionRequest.MaxBytes part;
          maxBytes = (if maxBytes = 0 then MultiFetchRequest.MaxBytes req else maxBytes)
      in \<lparr>RequestPartition.Partition = ucast (FetchPartitionRequest.Partition part),
          CurrentLeaderEpoch = - 1,
          FetchOffset = FetchPartitionRequest.Offset part,
          LogStartOffset = - 1,
          PartitionMaxBytes = ucast maxBytes\<rparr>)"

text \<open>The outer loop: one wire topic for each entry of the map, appended in range order.\<close>

definition MultiFetch_requestTopics :: "MultiFetchRequest \<Rightarrow> RequestTopic list" where
  "MultiFetch_requestTopics req =
     map (\<lambda>(topicName, partitions).
            \<lparr>RequestTopic.Topic = topicName,
             Partitions = map (MultiFetch_requestPartition req) partitions\<rparr>)
         (Requests req)"

text \<open>The body of the inner decoding loop: one partition of the answer.\<close>

definition MultiFetch_partitionResponse :: "ResponsePartition \<Rightarrow> FetchPartitionResponse" where
  "MultiFetch_partitionResponse p =
     (let r = \<lparr>FetchPartitionResponse.Partition = scast (ResponsePartition.Partition p),
                Error = makeError (ResponsePartition.ErrorCode p) [],
                HighWatermark = ResponsePartition.HighWatermark p,
                LastStableOffset = ResponsePartition.LastStableOffset p,
                LogStartOffset = ResponsePartition.LogStartOffset p,
                Records = RecordSet_Records p\<rparr>
      in if FetchPartitionResponse.Records r = None
         then r\<lparr>FetchPartitionResponse.Records := Some NewRecordReader\<rparr>
         else r)"

text \<open>
  The outer decoding loop: \<open>ret.Responses[t.Topic] = partitions\<close> for each topic of the
  answer, in decoded order, starting from the empty map.
\<close>

definition MultiFetch_responses :: "ResponseTopic list \<Rightarrow> (string \<rightharpoonup> FetchPartitionResponse list)" where
  "MultiFetch_responses topics =
     fold (\<lambda>t responses.
             responses(ResponseTopic.Topic t \<mapsto>
               map MultiFetch_partitionResponse (ResponseTopic.Partitions t)))
          topics Map.empty"

text \<open>
  The composite literal that \<open>MultiFetch\<close> hands to \<open>roundTrip\<close>; \<open>d\<close> is the value of
  its variable \<open>timeout\<close>.
\<close>

definition MultiFetch_request :: "package \<Rightarrow> Duration \<Rightarrow> MultiFetchRequest \<Rightarrow> RequestTopic list \<Rightarrow> Request" where
  "MultiFetch_request pkg d req topics =
     \<lparr>Request.ReplicaID = - 1,
      MaxWaitTime = milliseconds pkg d,
      MinBytes = ucast (MultiFetchRequest.MinBytes req),
      MaxBytes = ucast (MultiFetchRequest.MaxBytes req),
      IsolationLevel = MultiFetchRequest.IsolationLevel req,
      SessionID = 0,
      SessionEpoch = 0,
      Topics = topics\<rparr>"

text \<open>
  \<open>MultiFetch\<close>. The map of the result is made only when the slice of topics is not nil;
  when it is nil the decoding loop has nothing to range over and the map stays nil.
\<close>

definition MultiFetch :: "package \<Rightarrow> Client \<Rightarrow> MultiFetchRequest \<Rightarrow> transport \<Rightarrow> (error + MultiFetchResponse) \<times> transport" where
  "MultiFetch pkg c req sent =
     (let topics = MultiFetch_requestTopics req
      in if length topics = 0
         then (Inl (Wrapped ''kafka.(*Client).MultiFetch'' ErrNoTopic), sent)
         else
           (let timeout = MultiFetch_timeout pkg c req;
                (m, sent') = roundTrip c (MultiFetchRequest.Addr req)
                               (MultiFetch_request pkg timeout req topics) sent
            in case m of
                 Inl err \<Rightarrow> (Inl (Wrapped ''kafka.(*Client).MultiFetch'' err), sent')
               | Inr res \<Rightarrow>
                   (Inr \<lparr>MultiFetchResponse.Throttle = makeDuration pkg (ThrottleTimeMs res),
                         Responses = (case Response.Topics res of
                                        None \<Rightarrow> None
                                      | Some ts \<Rightarrow> Some (MultiFetch_responses ts)),
                         Error = makeError (Response.ErrorCode res) []\<rparr>,
                    sent')))"

section \<open>The version 2 wire types\<close>

text \<open>
  Modelled from the spec: the write buffer with its \<open>write\<close> methods, \<open>sizeofString\<close> and
  \<open>sizeofArray\<close> are declared outside \<open>fetch.go\<close>. The wire format is binary and
  big-endian; a string carries a 2-byte length prefix and an array a 4-byte element
  count, also when it is empty. The buffer is the list of the bytes written so far.
  The sizes are \<open>int32\<close>, as the \<open>size()\<close> methods that add them up declare: the sum wraps.
  As in the source, an array is given by its length and a function of the index.
\<close>

type_synonym writeBuffer = "byte list"

definition writeInt8 :: "int8 \<Rightarrow> writeBuffer \<Rightarrow> writeBuffer" where
  "writeInt8 v wb = wb @ [v]"

definition writeInt16 :: "int16 \<Rightarrow> writeBuffer \<Rightarrow> writeBuffer" where
  "writeInt16 v wb = wb @ [ucast (drop_bit 8 v), ucast v]"

definition writeInt32 :: "int32 \<Rightarrow> writeBuffer \<Rightarrow> writeBuffer" where
  "writeInt32 v wb =
     wb @ [ucast (drop_bit 24 v), ucast (drop_bit 16 v), ucast (drop_bit 8 v), ucast v]"

definition writeInt64 :: "int64 \<Rightarrow> writeBuffer \<Rightarrow> writeBuffer" where
  "writeInt64 v wb =
     wb @ [ucast (drop_bit 56 v), ucast (drop_bit 48 v), ucast (drop_bit 40 v),
           ucast (drop_bit 32 v), ucast (drop_bit 24 v), ucast (drop_bit 16 v),
           ucast (drop_bit 8 v), ucast v]"

definition writeString :: "string \<Rightarrow> writeBuffer \<Rightarrow> writeBuffer" where
  "writeString s wb = writeInt16 (of_nat (length s)) wb @ map (\<lambda>c. of_nat (of_char c)) s"

definition writeArray :: "nat \<Rightarrow> (nat \<Rightarrow> writeBuffer \<Rightarrow> writeBuffer) \<Rightarrow> writeBuffer \<Rightarrow> writeBuffer" where
  "writeArray n f wb = fold f [0..<n] (writeInt32 (of_nat n) wb)"

definition sizeofString :: "string \<Rightarrow> int32" where
  "sizeofString s = 2 + of_nat (length s)"

definition sizeofArray :: "nat \<Rightarrow> (nat \<Rightarrow> int32) \<Rightarrow> int32" where
  "sizeofArray n f = fold (\<lambda>i size. size + f i) [0..<n] 4"

subsection \<open>The request\<close>

record fetchRequestPartitionV2 =
  Partition :: int32
  FetchOffset :: int64
  MaxBytes :: int32

definition fetchRequestPartitionV2_size :: "fetchRequestPartitionV2 \<Rightarrow> int32" where
  "fetchRequestPartitionV2_size p = 4 + 8 + 4"

definition fetchRequestPartitionV2_writeTo :: "fetchRequestPartitionV2 \<Rightarrow> writeBuffer \<Rightarrow> writeBuffer" where
  "fetchRequestPartitionV2_writeTo p wb =
     writeInt32 (fetchRequestPartitionV2.MaxBytes p)
       (writeInt64 (fetchRequestPartitionV2.FetchOffset p)
         (writeInt32 (fetchRequestPartitionV2.Partition p) wb))"

record fetchRequestTopicV2 =
  TopicName :: string
  Partitions :: "fetchRequestPartitionV2 list"

definition fetchRequestTopicV2_size :: "fetchRequestTopicV2 \<Rightarrow> int32" where
  "fetchRequestTopicV2_size t =
     sizeofString (fetchRequestTopicV2.TopicName t) +
     sizeofArray (length (fetchRequestTopicV2.Partitions t))
       (\<lambda>i. fetchRequestPartitionV2_size (fetchRequestTopicV2.Partitions t ! i))"

definition fetchRequestTopicV2_writeTo :: "fetchRequestTopicV2 \<Rightarrow> writeBuffer \<Rightarrow> writeBuffer" where
  "fetchRequestTopicV2_writeTo t wb =
     writeArray (length (fetchRequestTopicV2.Partitions t))
       (\<lambda>i. fetchRequestPartitionV2_writeTo (fetchRequestTopicV2.Partitions t ! i))
       (writeString (fetchRequestTopicV2.TopicName t) wb)"

record fetchRequestV2 =
  ReplicaID :: int32
  MaxWaitTime :: int32
  MinBytes :: int32
  Topics :: "fetchRequestTopicV2 list"

definition fetchRequestV2_size :: "fetchRequestV2 \<Rightarrow> int32" where
  "fetchRequestV2_size r =
     4 + 4 + 4 +
     sizeofArray (length (fetchRequestV2.Topics r))
       (\<lambda>i. fetchRequestTopicV2_size (fetchRequestV2.Topics r ! i))"

definition fetchRequestV2_writeTo :: "fetchRequestV2 \<Rightarrow> writeBuffer \<Rightarrow> writeBuffer" where
  "fetchRequestV2_writeTo r wb =
     writeArray (length (fetchRequestV2.Topics r))
       (\<lambda>i. fetchRequestTopicV2_writeTo (fetchRequestV2.Topics r ! i))
       (writeInt32 (fetchRequestV2.MinBytes r)
         (writeInt32 (fetchRequestV2.MaxWaitTime r)
           (writeInt32 (fetchRequestV2.ReplicaID r) wb)))"

subsection \<open>The response\<close>

text \<open>
  The type \<open>messageSet\<close> is declared outside \<open>fetch.go\<close> and the spec does not describe
  it: it is the type parameter \<open>'m\<close>, and its two methods are a parameter of the
  functions that call them.
\<close>

record 'm messageSet_methods =
  messageSet_size :: "'m \<Rightarrow> int32"
  messageSet_writeTo :: "'m \<Rightarrow> writeBuffer \<Rightarrow> writeBuffer"

record 'm fetchResponsePartitionV2 =
  Partition :: int32
  ErrorCode :: int16
  HighwaterMarkOffset :: int64
  MessageSetSize :: int32
  MessageSet :: 'm

definition fetchResponsePartitionV2_size :: "'m messageSet_methods \<Rightarrow> 'm fetchResponsePartitionV2 \<Rightarrow> int32" where
  "fetchResponsePartitionV2_size ms p = 4 + 2 + 8 + 4 + messageSet_size ms (MessageSet p)"

definition fetchResponsePartitionV2_writeTo :: "'m messageSet_methods \<Rightarrow> 'm fetchResponsePartitionV2 \<Rightarrow> writeBuffer \<Rightarrow> writeBuffer" where
  "fetchResponsePartitionV2_writeTo ms p wb =
     messageSet_writeTo ms (MessageSet p)
       (writeInt32 (MessageSetSize p)
         (writeInt64 (HighwaterMarkOffset p)
           (writeInt16 (fetchResponsePartitionV2.ErrorCode p)
             (writeInt32 (fetchResponsePartitionV2.Partition p) wb))))"

record 'm fetchResponseTopicV2 =
  TopicName :: string
  Partitions :: "'m fetchResponsePartitionV2 list"

definition fetchResponseTopicV2_size :: "'m messageSet_methods \<Rightarrow> 'm fetchResponseTopicV2 \<Rightarrow> int32" where
  "fetchResponseTopicV2_size ms t =
     sizeofString (fetchResponseTopicV2.TopicName t) +
     sizeofArray (length (fetchResponseTopicV2.Partitions t))
       (\<lambda>i. fetchResponsePartitionV2_size ms (fetchResponseTopicV2.Partitions t ! i))"

definition fetchResponseTopicV2_writeTo :: "'m messageSet_methods \<Rightarrow> 'm fetchResponseTopicV2 \<Rightarrow> writeBuffer \<Rightarrow> writeBuffer" where
  "fetchResponseTopicV2_writeTo ms t wb =
     writeArray (length (fetchResponseTopicV2.Partitions t))
       (\<lambda>i. fetchResponsePartitionV2_writeTo ms (fetchResponseTopicV2.Partitions t ! i))
       (writeString (fetchResponseTopicV2.TopicName t) wb)"

record 'm fetchResponseV2 =
  ThrottleTime :: int32
  Topics :: "'m fetchResponseTopicV2 list"

definition fetchResponseV2_size :: "'m messageSet_methods \<Rightarrow> 'm fetchResponseV2 \<Rightarrow> int32" where
  "fetchResponseV2_size ms r =
     4 + sizeofArray (length (fetchResponseV2.Topics r))
           (\<lambda>i. fetchResponseTopicV2_size ms (fetchResponseV2.Topics r ! i))"

definition fetchResponseV2_writeTo :: "'m messageSet_methods \<Rightarrow> 'm fetchResponseV2 \<Rightarrow> writeBuffer \<Rightarrow> writeBuffer" where
  "fetchResponseV2_writeTo ms r wb =
     writeArray (length (fetchResponseV2.Topics r))
       (\<lambda>i. fetchResponseTopicV2_writeTo ms (fetchResponseV2.Topics r ! i))
       (writeInt32 (ThrottleTime r) wb)"

subsection \<open>What the two methods of a wire type owe each other\<close>

text \<open>
  \<open>emitted w wb\<close> is the number of bytes the write \<open>w\<close> adds to the buffer \<open>wb\<close>.
  A size \<open>agrees\<close> with a write when the write adds the same number \<open>k\<close> of bytes to
  every buffer and the size is \<open>k\<close> as an \<open>int32\<close>, that is modulo \<open>2 ^ 32\<close>.
\<close>

definition emitted :: "(writeBuffer \<Rightarrow> writeBuffer) \<Rightarrow> writeBuffer \<Rightarrow> nat" where
  "emitted w wb = length (w wb) - length wb"

definition agrees :: "int32 \<Rightarrow> (writeBuffer \<Rightarrow> writeBuffer) \<Rightarrow> bool" where
  "agrees sz w = (\<exists>k. sz = of_nat k \<and> (\<forall>wb. length (w wb) = length wb + k))"

definition messageSet_agrees :: "'m messageSet_methods \<Rightarrow> bool" where
  "messageSet_agrees ms = (\<forall>m. agrees (messageSet_size ms m) (messageSet_writeTo ms m))"

section \<open>Concrete packages, brokers and requests\<close>

text \<open>
  Values to run the definitions on. The package converts between nanoseconds and
  milliseconds and waits half a second by default; the client \<open>answering res\<close> has no
  deadline (\<open>math.MaxInt64\<close>) and a broker that answers every request with \<open>res\<close>;
  the request is the one of the spec's end-to-end scenario: offset 42 of partition 0
  of topic \<open>events\<close>, waiting at most 500ms. The message set of the examples is a list
  of bytes written as it is.
\<close>

definition example_milliseconds :: "Duration \<Rightarrow> int32" where
  "example_milliseconds d = ucast (d div 1000000)"

definition example_makeDuration :: "int32 \<Rightarrow> Duration" where
  "example_makeDuration ms = scast ms * 1000000"

definition example_package :: package where
  "example_package =
     \<lparr>defaultMaxWait = 500000000,
      milliseconds = example_milliseconds,
      makeDuration = example_makeDuration\<rparr>"

definition answering :: "Response \<Rightarrow> Client" where
  "answering res = \<lparr>Client.timeout = 9223372036854775807, reply = (\<lambda>_. Inr res)\<rparr>"

text \<open>
  The client \<open>echoing\<close> has a broker that answers about the topics and partitions of the
  wire request it receives, without error and without records.
\<close>

definition echo_partition :: "RequestPartition \<Rightarrow> ResponsePartition" where
  "echo_partition p =
     \<lparr>ResponsePartition.Partition = RequestPartition.Partition p,
      ErrorCode = 0,
      HighWatermark = 100,
      LastStableOffset = 0,
      LogStartOffset = 0,
      RecordSet_Records = None\<rparr>"

definition echo_topic :: "RequestTopic \<Rightarrow> ResponseTopic" where
  "echo_topic t =
     \<lparr>ResponseTopic.Topic = RequestTopic.Topic t,
      Partitions = map echo_partition (RequestTopic.Partitions t)\<rparr>"

definition echoing :: Client where
  "echoing =
     \<lparr>Client.timeout = 9223372036854775807,
      reply = (\<lambda>w. Inr \<lparr>ThrottleTimeMs = 0, ErrorCode = 0,
                          Topics = Some (map echo_topic (Request.Topics w))\<rparr>)\<rparr>"

definition example_partition :: "int32 \<Rightarrow> int16 \<Rightarrow> RecordReader option \<Rightarrow> ResponsePartition" where
  "example_partition n code records =
     \<lparr>ResponsePartition.Partition = n,
      ErrorCode = code,
      HighWatermark = 100,
      LastStableOffset = 0,
      LogStartOffset = 0,
      RecordSet_Records = records\<rparr>"

definition example_topic :: "string \<Rightarrow> ResponsePartition list \<Rightarrow> ResponseTopic" where
  "example_topic name parts = \<lparr>ResponseTopic.Topic = name, Partitions = parts\<rparr>"

definition example_response :: "int16 \<Rightarrow> ResponseTopic list \<Rightarrow> Response" where
  "example_response code topics =
     \<lparr>ThrottleTimeMs = 0, ErrorCode = code, Topics = Some topics\<rparr>"

definition example_FetchRequest :: "int64 \<Rightarrow> FetchRequest" where
  "example_FetchRequest n =
     \<lparr>FetchRequest.Addr = ''localhost:9092'',
      Topic = ''events'',
      Partition = 0,
      Offset = 42,
      MinBytes = n,
      MaxBytes = n,
      MaxWait = 500000000,
      IsolationLevel = 0\<rparr>"

definition example_spec :: "int64 \<Rightarrow> FetchPartitionRequest" where
  "example_spec n = \<lparr>FetchPartitionRequest.Partition = 0, Offset = 0, MaxBytes = n\<rparr>"

definition example_MultiFetchRequest :: "int64 \<Rightarrow> (string \<times> FetchPartitionRequest list) list \<Rightarrow> MultiFetchRequest" where
  "example_MultiFetchRequest n requests =
     \<lparr>MultiFetchRequest.Addr = ''localhost:9092'',
      Requests = requests,
      MinBytes = n,
      MaxBytes = n,
      MaxWait = 0,
      IsolationLevel = 0\<rparr>"

definition example_messageSet :: "byte list messageSet_methods" where
  "example_messageSet =
     \<lparr>messageSet_size = (\<lambda>m. of_nat (length m)),
      messageSet_writeTo = (\<lambda>m wb. wb @ m)\<rparr>"

definition example_partitionV2 :: fetchRequestPartitionV2 where
  "example_partitionV2 =
     \<lparr>fetchRequestPartitionV2.Partition = 0, FetchOffset = 42, MaxBytes = - 1\<rparr>"

section \<open>What one call of \<open>Fetch\<close> does\<close>

lemma Fetch_sent:
  "snd (Fetch pkg c req sent) = sent @ [Fetch_request pkg (Fetch_timeout pkg c req) req]"
  by (simp add: Fetch_def roundTrip_def Let_def split: sum.split list.split)

lemma Fetch_transport_error:
  "reply c (Fetch_request pkg (Fetch_timeout pkg c req) req) = Inl err \<Longrightarrow>
   fst (Fetch pkg c req sent) = Inl (Wrapped ''kafka.(*Client).Fetch'' err)"
  by (simp add: Fetch_def roundTrip_def Let_def)

lemma Fetch_no_topic:
  "reply c (Fetch_request pkg (Fetch_timeout pkg c req) req) = Inr res \<Longrightarrow>
   elems (Response.Topics res) = [] \<Longrightarrow>
   fst (Fetch pkg c req sent) = Inl (Wrapped ''kafka.(*Client).Fetch'' ErrNoTopic)"
  by (simp add: Fetch_def roundTrip_def Let_def)

lemma Fetch_no_partition:
  "reply c (Fetch_request pkg (Fetch_timeout pkg c req) req) = Inr res \<Longrightarrow>
   elems (Response.Topics res) = t # ts \<Longrightarrow> ResponseTopic.Partitions t = [] \<Longrightarrow>
   fst (Fetch pkg c req sent) = Inl (Wrapped ''kafka.(*Client).Fetch'' ErrNoPartition)"
  by (simp add: Fetch_def roundTrip_def Let_def)

lemma Fetch_ok:
  "reply c (Fetch_request pkg (Fetch_timeout pkg c req) req) = Inr res \<Longrightarrow>
   elems (Response.Topics res) = t # ts \<Longrightarrow> ResponseTopic.Partitions t = p # ps \<Longrightarrow>
   fst (Fetch pkg c req sent) =
     Inr \<lparr>FetchResponse.Throttle = makeDuration pkg (ThrottleTimeMs res),
          Topic = ResponseTopic.Topic t,
          Partition = scast (ResponsePartition.Partition p),
          HighWatermark = ResponsePartition.HighWatermark p,
          LastStableOffset = ResponsePartition.LastStableOffset p,
          LogStartOffset = ResponsePartition.LogStartOffset p,
          Error = (if ResponsePartition.ErrorCode p \<noteq> 0
                   then makeError (ResponsePartition.ErrorCode p) []
                   else makeError (Response.ErrorCode res) []),
          Records = (case RecordSet_Records p of
                       None \<Rightarrow> Some NewRecordReader
                     | Some r \<Rightarrow> Some r)\<rparr>"
  by (simp add: Fetch_def roundTrip_def Let_def split: option.split)

lemma Fetch_Inr_cases:
  assumes "fst (Fetch pkg c req sent) = Inr ret"
  obtains res t ts p ps where
    "reply c (Fetch_request pkg (Fetch_timeout pkg c req) req) = Inr res"
    "elems (Response.Topics res) = t # ts" "ResponseTopic.Partitions t = p # ps"
  using assms
  by (auto simp add: Fetch_def roundTrip_def Let_def split: sum.splits list.splits)

section \<open>Narrowing an \<open>int64\<close> to an \<open>int32\<close>\<close>

lemma narrow_uint: "uint (ucast (v :: 64 word) :: 32 word) = uint v mod 2 ^ 32"
  by (simp add: unsigned_ucast_eq take_bit_eq_mod)

lemma narrow_sint: "sint (ucast (v :: 64 word) :: 32 word) = signed_take_bit 31 (sint v)"
proof -
  have "take_bit 32 (uint v) = take_bit 32 (sint v)"
    by (simp add: sint_uint take_bit_signed_take_bit)
  then have "signed_take_bit 31 (uint v) = signed_take_bit 31 (sint v)"
    by (simp add: signed_take_bit_eq_iff_take_bit_eq)
  moreover have "sint (ucast v :: 32 word) = signed_take_bit 31 (uint v)"
    by (simp add: signed_ucast_eq)
  ultimately show ?thesis by simp
qed


lemma narrow_fits:
  "- (2 ^ 31) \<le> sint v \<Longrightarrow> sint v < 2 ^ 31 \<Longrightarrow> sint (ucast (v :: 64 word) :: 32 word) = sint v"
  by (simp add: narrow_sint signed_take_bit_int_eq_self)

section \<open>What one call of \<open>MultiFetch\<close> does\<close>

lemma MultiFetch_empty:
  "Requests req = [] \<Longrightarrow>
   MultiFetch pkg c req sent = (Inl (Wrapped ''kafka.(*Client).MultiFetch'' ErrNoTopic), sent)"
  by (simp add: MultiFetch_def MultiFetch_requestTopics_def)

lemma MultiFetch_sent:
  "Requests req \<noteq> [] \<Longrightarrow>
   snd (MultiFetch pkg c req sent) =
     sent @ [MultiFetch_request pkg (MultiFetch_timeout pkg c req) req (MultiFetch_requestTopics req)]"
  by (simp add: MultiFetch_def MultiFetch_requestTopics_def roundTrip_def Let_def split: sum.split)

lemma MultiFetch_ok:
  "Requests req \<noteq> [] \<Longrightarrow>
   reply c (MultiFetch_request pkg (MultiFetch_timeout pkg c req) req (MultiFetch_requestTopics req)) = Inr res \<Longrightarrow>
   fst (MultiFetch pkg c req sent) =
     Inr \<lparr>MultiFetchResponse.Throttle = makeDuration pkg (ThrottleTimeMs res),
           Responses = (case Response.Topics res of
                          None \<Rightarrow> None
                        | Some ts \<Rightarrow> Some (MultiFetch_responses ts)),
           Error = makeError (Response.ErrorCode res) []\<rparr>"
  by (simp add: MultiFetch_def MultiFetch_requestTopics_def roundTrip_def Let_def)

lemma MultiFetch_Inr_cases:
  assumes "fst (MultiFetch pkg c req sent) = Inr ret"
  obtains res where "Requests req \<noteq> []"
    "reply c (MultiFetch_request pkg (MultiFetch_timeout pkg c req) req (MultiFetch_requestTopics req)) = Inr res"
  using assms
  by (auto simp add: MultiFetch_def MultiFetch_requestTopics_def roundTrip_def Let_def split: sum.splits if_splits)

lemma find_snoc:
  "find P (xs @ [x]) = (case find P xs of None \<Rightarrow> (if P x then Some x else None) | Some y \<Rightarrow> Some y)"
  by (induction xs) auto

lemma find_Some_set: "find P xs = Some x \<Longrightarrow> x \<in> set xs \<and> P x"
  by (induction xs) (auto split: if_splits)

lemma fold_responses:
  "fold (\<lambda>t responses.
             responses(ResponseTopic.Topic t \<mapsto>
               map MultiFetch_partitionResponse (ResponseTopic.Partitions t))) ts m name =
   (case find (\<lambda>t. ResponseTopic.Topic t = name) (rev ts) of
      None \<Rightarrow> m name
    | Some t \<Rightarrow> Some (map MultiFetch_partitionResponse (ResponseTopic.Partitions t)))"
proof (induction ts arbitrary: m)
  case Nil
  show ?case by simp
next
  case (Cons t ts)
  show ?case
    by (simp add: Cons.IH find_snoc del: fun_upd_apply split: option.split) simp
qed

lemma MultiFetch_responses_find:
  "MultiFetch_responses ts name =
   (case find (\<lambda>t. ResponseTopic.Topic t = name) (rev ts) of
      None \<Rightarrow> None
    | Some t \<Rightarrow> Some (map MultiFetch_partitionResponse (ResponseTopic.Partitions t)))"
  by (simp add: MultiFetch_responses_def fold_responses)

lemma MultiFetch_responses_entry:
  "t \<in> set ts \<Longrightarrow> MultiFetch_responses ts (ResponseTopic.Topic t) \<noteq> None"
  by (auto simp add: MultiFetch_responses_find find_None_iff split: option.split)

lemma MultiFetch_responses_from:
  "MultiFetch_responses ts name = Some prs \<Longrightarrow>
   \<exists>t \<in> set ts. ResponseTopic.Topic t = name \<and>
      prs = map MultiFetch_partitionResponse (ResponseTopic.Partitions t)"
proof -
  assume a: "MultiFetch_responses ts name = Some prs"
  then obtain t where f: "find (\<lambda>t. ResponseTopic.Topic t = name) (rev ts) = Some t"
    and p: "prs = map MultiFetch_partitionResponse (ResponseTopic.Partitions t)"
    by (auto simp add: MultiFetch_responses_find split: option.splits)
  from find_Some_set [OF f] have "t \<in> set ts" "ResponseTopic.Topic t = name"
    by simp_all
  with p show ?thesis by blast
qed

lemma find_distinct:
  "distinct (map f xs) \<Longrightarrow> x \<in> set xs \<Longrightarrow> find (\<lambda>y. f y = f x) xs = Some x"
  by (induction xs) (auto simp: image_iff)

lemma MultiFetch_responses_distinct:
  "distinct (map ResponseTopic.Topic ts) \<Longrightarrow> t \<in> set ts \<Longrightarrow>
   MultiFetch_responses ts (ResponseTopic.Topic t) =
     Some (map MultiFetch_partitionResponse (ResponseTopic.Partitions t))"
  using find_distinct [of ResponseTopic.Topic "rev ts" t]
  by (simp add: MultiFetch_responses_find rev_map [symmetric])

lemma partitionResponse_Records:
  "FetchPartitionResponse.Records (MultiFetch_partitionResponse p) =
     (case RecordSet_Records p of None \<Rightarrow> Some NewRecordReader | Some r \<Rightarrow> Some r)"
  by (simp add: MultiFetch_partitionResponse_def Let_def split: option.split)

section \<open>Lengths written and sizes announced\<close>

lemma length_writeInt16: "length (writeInt16 v wb) = length wb + 2"
  by (simp add: writeInt16_def)

lemma length_writeInt32: "length (writeInt32 v wb) = length wb + 4"
  by (simp add: writeInt32_def)

lemma length_writeInt64: "length (writeInt64 v wb) = length wb + 8"
  by (simp add: writeInt64_def)

lemma length_writeString: "length (writeString s wb) = length wb + (2 + length s)"
  by (simp add: writeString_def length_writeInt16)

lemma length_fold_upt:
  "(\<And>i wb. i < n \<Longrightarrow> length (f i wb) = length wb + k i) \<Longrightarrow>
   length (fold f [0..<n] wb) = length wb + sum k {..<n}"
  by (induction n) simp_all

lemma length_writeArray:
  "(\<And>i wb. i < n \<Longrightarrow> length (f i wb) = length wb + k i) \<Longrightarrow>
   length (writeArray n f wb) = length wb + (4 + sum k {..<n})"
  by (simp add: writeArray_def length_fold_upt [where k = k] length_writeInt32)

lemma sizeofArray_sum:
  "(\<And>i. i < n \<Longrightarrow> g i = of_nat (k i)) \<Longrightarrow> sizeofArray n g = of_nat (4 + sum k {..<n})"
  unfolding sizeofArray_def
  by (induction n) simp_all

lemma agreesI:
  "sz = of_nat k \<Longrightarrow> (\<And>wb. length (w wb) = length wb + k) \<Longrightarrow> agrees sz w"
  unfolding agrees_def by blast

lemma agrees_array:
  assumes "\<And>i. i < n \<Longrightarrow> agrees (g i) (f i)"
  shows "\<exists>k. sizeofArray n g = of_nat (4 + k) \<and> (\<forall>wb. length (writeArray n f wb) = length wb + (4 + k))"
proof -
  from assms have "\<forall>i. \<exists>k. i < n \<longrightarrow> g i = of_nat k \<and> (\<forall>wb. length (f i wb) = length wb + k)"
    unfolding agrees_def by blast
  then obtain k where k: "\<And>i. i < n \<Longrightarrow> g i = of_nat (k i) \<and> (\<forall>wb. length (f i wb) = length wb + k i)"
    by metis
  have "sizeofArray n g = of_nat (4 + sum k {..<n})"
    by (rule sizeofArray_sum) (simp add: k)
  moreover have "\<forall>wb. length (writeArray n f wb) = length wb + (4 + sum k {..<n})"
    by (simp add: length_writeArray [where k = k] k)
  ultimately show ?thesis by blast
qed

lemma agrees_emitted:
  "agrees sz w \<Longrightarrow> emitted w wb < 2 ^ 31 \<Longrightarrow> sint sz = int (emitted w wb)"
proof -
  assume "agrees sz w" and small: "emitted w wb < 2 ^ 31"
  then obtain k where sz: "sz = of_nat k" and len: "\<And>wb. length (w wb) = length wb + k"
    unfolding agrees_def by blast
  have e: "emitted w wb = k" by (simp add: emitted_def len)
  with small have "k < 2 ^ 31" by simp
  then have "sint (of_nat k :: 32 word) = int k"
    by (simp add: signed_of_nat signed_take_bit_int_eq_self)
  with sz e show ?thesis by simp
qed

lemma partition_length:
  "length (fetchRequestPartitionV2_writeTo p wb) = length wb + 16"
  by (simp add: fetchRequestPartitionV2_writeTo_def length_writeInt32 length_writeInt64)

lemma partition_agrees:
  "agrees (fetchRequestPartitionV2_size p) (fetchRequestPartitionV2_writeTo p)"
  by (rule agreesI [where k = 16]) (simp_all add: fetchRequestPartitionV2_size_def partition_length)

lemma request_topic_length:
  "length (fetchRequestTopicV2_writeTo t wb) =
     length wb + (6 + length (fetchRequestTopicV2.TopicName t) + 16 * length (fetchRequestTopicV2.Partitions t))"
  by (simp add: fetchRequestTopicV2_writeTo_def length_writeArray [where k = "\<lambda>_. 16"]
        partition_length length_writeString)

lemma request_topic_size:
  "fetchRequestTopicV2_size t =
     of_nat (6 + length (fetchRequestTopicV2.TopicName t) + 16 * length (fetchRequestTopicV2.Partitions t))"
  by (simp add: fetchRequestTopicV2_size_def sizeofString_def
        sizeofArray_sum [where k = "\<lambda>_. 16"] fetchRequestPartitionV2_size_def)

lemma request_topic_agrees:
  "agrees (fetchRequestTopicV2_size t) (fetchRequestTopicV2_writeTo t)"
  by (rule agreesI [OF request_topic_size]) (rule request_topic_length)

lemma request_agrees:
  "agrees (fetchRequestV2_size r) (fetchRequestV2_writeTo r)"
proof -
  obtain k where sz: "sizeofArray (length (fetchRequestV2.Topics r))
       (\<lambda>i. fetchRequestTopicV2_size (fetchRequestV2.Topics r ! i)) = of_nat (4 + k)"
    and len: "\<And>wb. length (writeArray (length (fetchRequestV2.Topics r))
       (\<lambda>i. fetchRequestTopicV2_writeTo (fetchRequestV2.Topics r ! i)) wb) = length wb + (4 + k)"
    using agrees_array [of "length (fetchRequestV2.Topics r)"
       "\<lambda>i. fetchRequestTopicV2_size (fetchRequestV2.Topics r ! i)"
       "\<lambda>i. fetchRequestTopicV2_writeTo (fetchRequestV2.Topics r ! i)"]
    by (auto simp add: request_topic_agrees)
  show ?thesis
    by (rule agreesI [where k = "16 + k"])
       (simp_all add: fetchRequestV2_size_def fetchRequestV2_writeTo_def sz len length_writeInt32)
qed

lemma response_partition_agrees:
  assumes "messageSet_agrees ms"
  shows "agrees (fetchResponsePartitionV2_size ms p) (fetchResponsePartitionV2_writeTo ms p)"
proof -
  from assms obtain k where sz: "messageSet_size ms (MessageSet p) = of_nat k"
    and len: "\<And>wb. length (messageSet_writeTo ms (MessageSet p) wb) = length wb + k"
    unfolding messageSet_agrees_def agrees_def by blast
  show ?thesis
    by (rule agreesI [where k = "18 + k"])
       (simp_all add: fetchResponsePartitionV2_size_def fetchResponsePartitionV2_writeTo_def
          sz len length_writeInt16 length_writeInt32 length_writeInt64)
qed

lemma response_topic_agrees:
  assumes "messageSet_agrees ms"
  shows "agrees (fetchResponseTopicV2_size ms t) (fetchResponseTopicV2_writeTo ms t)"
proof -
  obtain k where sz: "sizeofArray (length (fetchResponseTopicV2.Partitions t))
       (\<lambda>i. fetchResponsePartitionV2_size ms (fetchResponseTopicV2.Partitions t ! i)) = of_nat (4 + k)"
    and len: "\<And>wb. length (writeArray (length (fetchResponseTopicV2.Partitions t))
       (\<lambda>i. fetchResponsePartitionV2_writeTo ms (fetchResponseTopicV2.Partitions t ! i)) wb) = length wb + (4 + k)"
    using agrees_array [of "length (fetchResponseTopicV2.Partitions t)"
       "\<lambda>i. fetchResponsePartitionV2_size ms (fetchResponseTopicV2.Partitions t ! i)"
       "\<lambda>i. fetchResponsePartitionV2_writeTo ms (fetchResponseTopicV2.Partitions t ! i)"]
    by (auto simp add: response_partition_agrees [OF assms])
  show ?thesis
    by (rule agreesI [where k = "6 + length (fetchResponseTopicV2.TopicName t) + k"])
       (simp_all add: fetchResponseTopicV2_size_def fetchResponseTopicV2_writeTo_def sz len
          sizeofString_def length_writeString)
qed

lemma response_agrees:
  assumes "messageSet_agrees ms"
  shows "agrees (fetchResponseV2_size ms r) (fetchResponseV2_writeTo ms r)"
proof -
  obtain k where sz: "sizeofArray (length (fetchResponseV2.Topics r))
       (\<lambda>i. fetchResponseTopicV2_size ms (fetchResponseV2.Topics r ! i)) = of_nat (4 + k)"
    and len: "\<And>wb. length (writeArray (length (fetchResponseV2.Topics r))
       (\<lambda>i. fetchResponseTopicV2_writeTo ms (fetchResponseV2.Topics r ! i)) wb) = length wb + (4 + k)"
    using agrees_array [of "length (fetchResponseV2.Topics r)"
       "\<lambda>i. fetchResponseTopicV2_size ms (fetchResponseV2.Topics r ! i)"
       "\<lambda>i. fetchResponseTopicV2_writeTo ms (fetchResponseV2.Topics r ! i)"]
    by (auto simp add: response_topic_agrees [OF assms])
  show ?thesis
    by (rule agreesI [where k = "8 + k"])
       (simp_all add: fetchResponseV2_size_def fetchResponseV2_writeTo_def sz len length_writeInt32)
qed

section \<open>The claims\<close>

subsection \<open>C1: the error of a \<open>FetchResponse\<close>\<close>

text \<open>
  Claim C1. When the broker's answer has a first topic with a first partition, \<open>Fetch\<close>
  succeeds; if the error code of that partition is not zero, the \<open>Error\<close> of the result is
  the error made from the partition's code, whatever the global code is; if it is zero,
  \<open>Error\<close> is the error made from the global code, which is nil when that code is zero.
\<close>

theorem Fetch_partition_error_overrides:
  assumes "reply c (Fetch_request pkg (Fetch_timeout pkg c req) req) = Inr res"
    and "elems (Response.Topics res) = t # ts"
    and "ResponseTopic.Partitions t = p # ps"
  shows "\<exists>ret. fst (Fetch pkg c req sent) = Inr ret \<and>
           (ResponsePartition.ErrorCode p \<noteq> 0 \<longrightarrow>
              FetchResponse.Error ret = makeError (ResponsePartition.ErrorCode p) [] \<and>
              FetchResponse.Error ret = Some (KafkaError (ResponsePartition.ErrorCode p) [])) \<and>
           (ResponsePartition.ErrorCode p = 0 \<longrightarrow>
              FetchResponse.Error ret = makeError (Response.ErrorCode res) []) \<and>
           (ResponsePartition.ErrorCode p = 0 \<and> Response.ErrorCode res = 0 \<longrightarrow>
              FetchResponse.Error ret = None)"
  by (simp add: Fetch_ok [OF assms] makeError_def)

text \<open>
  The answer of the spec's round-trip test: global code 1 and partition code 3 both set.
  The result carries the error of code 3.
\<close>

theorem Fetch_partition_error_overrides_witness:
  "reply (answering (example_response 1 [example_topic ''events'' [example_partition 0 3 None]]))
     (Fetch_request example_package
        (Fetch_timeout example_package
           (answering (example_response 1 [example_topic ''events'' [example_partition 0 3 None]]))
           (example_FetchRequest 1))
        (example_FetchRequest 1))
     = Inr (example_response 1 [example_topic ''events'' [example_partition 0 3 None]]) \<and>
   elems (Response.Topics (example_response 1 [example_topic ''events'' [example_partition 0 3 None]]))
     = example_topic ''events'' [example_partition 0 3 None] # [] \<and>
   ResponseTopic.Partitions (example_topic ''events'' [example_partition 0 3 None])
     = example_partition 0 3 None # [] \<and>
   (\<exists>ret. fst (Fetch example_package
               (answering (example_response 1 [example_topic ''events'' [example_partition 0 3 None]]))
               (example_FetchRequest 1) []) = Inr ret \<and>
          FetchResponse.Error ret = Some (KafkaError 3 []))"
proof -
  have r: "reply (answering (example_response 1 [example_topic ''events'' [example_partition 0 3 None]]))
     (Fetch_request example_package
        (Fetch_timeout example_package
           (answering (example_response 1 [example_topic ''events'' [example_partition 0 3 None]]))
           (example_FetchRequest 1))
        (example_FetchRequest 1))
     = Inr (example_response 1 [example_topic ''events'' [example_partition 0 3 None]])"
    by (simp add: answering_def)
  have t: "elems (Response.Topics (example_response 1 [example_topic ''events'' [example_partition 0 3 None]]))
     = example_topic ''events'' [example_partition 0 3 None] # []"
    by (simp add: example_response_def elems_def)
  have p: "ResponseTopic.Partitions (example_topic ''events'' [example_partition 0 3 None])
     = example_partition 0 3 None # []"
    by (simp add: example_topic_def)
  have c: "ResponsePartition.ErrorCode (example_partition 0 3 None) = 3"
    by (simp add: example_partition_def)
  from Fetch_partition_error_overrides [OF r t p, of "[]"] c r t p
  show ?thesis by auto
qed

subsection \<open>C2: what \<open>MultiFetch\<close> refuses to send\<close>

text \<open>
  Claim C2, as amended. A \<open>MultiFetchRequest\<close> whose map of requests has no topic at all is
  refused with an error that wraps \<open>ErrNoTopic\<close>, and the transport is left as it was: no
  request is sent.
\<close>

theorem MultiFetch_rejects_empty_mapping:
  assumes "Requests req = []"
  shows "\<exists>e. fst (MultiFetch pkg c req sent) = Inl e \<and> errors_Is e ErrNoTopic \<and>
             snd (MultiFetch pkg c req sent) = sent"
  by (simp add: MultiFetch_empty [OF assms])

theorem MultiFetch_rejects_empty_mapping_witness:
  "Requests (example_MultiFetchRequest 1000 []) = [] \<and>
   (\<exists>e. fst (MultiFetch example_package (answering (example_response 0 []))
                (example_MultiFetchRequest 1000 []) []) = Inl e \<and>
        errors_Is e ErrNoTopic \<and>
        snd (MultiFetch example_package (answering (example_response 0 []))
                (example_MultiFetchRequest 1000 []) []) = [])"
  using MultiFetch_rejects_empty_mapping
    [of "example_MultiFetchRequest 1000 []" example_package "answering (example_response 0 [])" "[]"]
  by (simp add: example_MultiFetchRequest_def)

text \<open>
  Claim C2 as stated fails. The request below has one topic and that topic has no
  partition spec, so it holds no topic with at least one partition spec; the list of
  wire topics \<open>MultiFetch\<close> tests has one element, one request goes through the
  transport and the call succeeds.
\<close>

theorem MultiFetch_sends_topic_without_partitions:
  "Requests (example_MultiFetchRequest 1000 [(''a'', [])]) = [(''a'', [])] \<and>
   length (snd (MultiFetch example_package (answering (example_response 0 []))
                  (example_MultiFetchRequest 1000 [(''a'', [])]) [])) = 1 \<and>
   \<not> isl (fst (MultiFetch example_package (answering (example_response 0 []))
                  (example_MultiFetchRequest 1000 [(''a'', [])]) []))"
  by (simp add: MultiFetch_def MultiFetch_requestTopics_def roundTrip_def Let_def
        example_MultiFetchRequest_def answering_def)

subsection \<open>C3: answers without a topic or without a partition\<close>

text \<open>
  Claim C3. When the broker's answer holds no topic, \<open>Fetch\<close> returns no response and an
  error that wraps \<open>ErrNoTopic\<close>; when its first topic holds no partition, \<open>Fetch\<close> returns
  no response and an error that wraps \<open>ErrNoPartition\<close>.
\<close>

theorem Fetch_rejects_empty_reply:
  assumes "reply c (Fetch_request pkg (Fetch_timeout pkg c req) req) = Inr res"
  shows "(elems (Response.Topics res) = [] \<longrightarrow>
            (\<exists>e. fst (Fetch pkg c req sent) = Inl e \<and> errors_Is e ErrNoTopic)) \<and>
         (\<forall>t ts. elems (Response.Topics res) = t # ts \<and> ResponseTopic.Partitions t = [] \<longrightarrow>
            (\<exists>e. fst (Fetch pkg c req sent) = Inl e \<and> errors_Is e ErrNoPartition))"
  using Fetch_no_topic [OF assms] Fetch_no_partition [OF assms]
  by auto

theorem Fetch_rejects_empty_reply_witness:
  "(\<exists>e. fst (Fetch example_package (answering (example_response 0 []))
              (example_FetchRequest 1) []) = Inl e \<and> errors_Is e ErrNoTopic) \<and>
   (\<exists>e. fst (Fetch example_package (answering (example_response 0 [example_topic ''events'' []]))
              (example_FetchRequest 1) []) = Inl e \<and> errors_Is e ErrNoPartition)"
  using Fetch_rejects_empty_reply
    [of "answering (example_response 0 [])" example_package "example_FetchRequest 1"
        "example_response 0 []" "[]"]
    Fetch_rejects_empty_reply
    [of "answering (example_response 0 [example_topic ''events'' []])" example_package
        "example_FetchRequest 1" "example_response 0 [example_topic ''events'' []]" "[]"]
  by (simp add: answering_def example_response_def example_topic_def elems_def)

subsection \<open>C4: the record reader of a result is never nil\<close>

text \<open>
  Claim C4. The \<open>Records\<close> of a successful \<open>Fetch\<close> is not nil: it is the reader of the
  first partition of the first topic of the answer, or the empty reader when that
  partition carries none. The same holds for every partition response under every key of
  the \<open>Responses\<close> of a successful \<open>MultiFetch\<close>: the list under a key comes from a topic
  of the answer with that name, partition by partition.
\<close>

theorem Records_never_nil:
  "(fst (Fetch pkg c req sent) = Inr ret \<longrightarrow>
      FetchResponse.Records ret \<noteq> None \<and>
      (\<exists>res t ts p ps.
         reply c (Fetch_request pkg (Fetch_timeout pkg c req) req) = Inr res \<and>
         elems (Response.Topics res) = t # ts \<and> ResponseTopic.Partitions t = p # ps \<and>
         FetchResponse.Records ret =
           (case RecordSet_Records p of None \<Rightarrow> Some NewRecordReader | Some r \<Rightarrow> Some r))) \<and>
   (fst (MultiFetch pkg c mreq sent) = Inr mret \<and> Responses mret = Some m \<and> m name = Some prs \<longrightarrow>
      (\<forall>pr \<in> set prs. FetchPartitionResponse.Records pr \<noteq> None) \<and>
      (\<exists>res ts t.
         reply c (MultiFetch_request pkg (MultiFetch_timeout pkg c mreq) mreq
                    (MultiFetch_requestTopics mreq)) = Inr res \<and>
         Response.Topics res = Some ts \<and> t \<in> set ts \<and> ResponseTopic.Topic t = name \<and>
         length prs = length (ResponseTopic.Partitions t) \<and>
         (\<forall>i < length prs.
            FetchPartitionResponse.Records (prs ! i) =
              (case RecordSet_Records (ResponseTopic.Partitions t ! i) of
                 None \<Rightarrow> Some NewRecordReader | Some r \<Rightarrow> Some r))))"
proof (intro conjI impI)
  assume a: "fst (Fetch pkg c req sent) = Inr ret"
  then obtain res t ts p ps where
    r: "reply c (Fetch_request pkg (Fetch_timeout pkg c req) req) = Inr res"
    and t: "elems (Response.Topics res) = t # ts" and p: "ResponseTopic.Partitions t = p # ps"
    by (rule Fetch_Inr_cases)
  from Fetch_ok [OF r t p, of sent] a
  have rec: "FetchResponse.Records ret =
      (case RecordSet_Records p of None \<Rightarrow> Some NewRecordReader | Some r \<Rightarrow> Some r)"
    by auto
  then show "FetchResponse.Records ret \<noteq> None"
    by (simp split: option.split)
  from r t p rec show "\<exists>res t ts p ps.
         reply c (Fetch_request pkg (Fetch_timeout pkg c req) req) = Inr res \<and>
         elems (Response.Topics res) = t # ts \<and> ResponseTopic.Partitions t = p # ps \<and>
         FetchResponse.Records ret =
           (case RecordSet_Records p of None \<Rightarrow> Some NewRecordReader | Some r \<Rightarrow> Some r)"
    by blast
next
  assume a: "fst (MultiFetch pkg c mreq sent) = Inr mret \<and> Responses mret = Some m \<and> m name = Some prs"
  then obtain res where ne: "Requests mreq \<noteq> []"
    and r: "reply c (MultiFetch_request pkg (MultiFetch_timeout pkg c mreq) mreq
                    (MultiFetch_requestTopics mreq)) = Inr res"
    by (blast elim: MultiFetch_Inr_cases)
  from MultiFetch_ok [OF ne r, of sent] a
  obtain ts where ts: "Response.Topics res = Some ts" and m: "m = MultiFetch_responses ts"
    by (cases "Response.Topics res") auto
  from a m have "MultiFetch_responses ts name = Some prs" by simp
  from MultiFetch_responses_from [OF this]
  obtain t where t: "t \<in> set ts" "ResponseTopic.Topic t = name"
    and prs: "prs = map MultiFetch_partitionResponse (ResponseTopic.Partitions t)"
    by blast
  show "\<forall>pr \<in> set prs. FetchPartitionResponse.Records pr \<noteq> None"
    by (auto simp add: prs partitionResponse_Records split: option.split)
  have "length prs = length (ResponseTopic.Partitions t) \<and>
         (\<forall>i < length prs.
            FetchPartitionResponse.Records (prs ! i) =
              (case RecordSet_Records (ResponseTopic.Partitions t ! i) of
                 None \<Rightarrow> Some NewRecordReader | Some r \<Rightarrow> Some r))"
    by (simp add: prs partitionResponse_Records)
  with r ts t show "\<exists>res ts t.
         reply c (MultiFetch_request pkg (MultiFetch_timeout pkg c mreq) mreq
                    (MultiFetch_requestTopics mreq)) = Inr res \<and>
         Response.Topics res = Some ts \<and> t \<in> set ts \<and> ResponseTopic.Topic t = name \<and>
         length prs = length (ResponseTopic.Partitions t) \<and>
         (\<forall>i < length prs.
            FetchPartitionResponse.Records (prs ! i) =
              (case RecordSet_Records (ResponseTopic.Partitions t ! i) of
                 None \<Rightarrow> Some NewRecordReader | Some r \<Rightarrow> Some r))"
    by blast
qed

text \<open>
  An answer whose only partition carries no reader: both calls succeed and hand out a
  reader, for \<open>Fetch\<close> the empty one.
\<close>

theorem Records_never_nil_witness:
  "(\<exists>ret. fst (Fetch example_package
               (answering (example_response 0 [example_topic ''events'' [example_partition 0 0 None]]))
               (example_FetchRequest 1) []) = Inr ret \<and>
          FetchResponse.Records ret \<noteq> None \<and>
          FetchResponse.Records ret = Some NewRecordReader) \<and>
   (\<exists>mret m prs.
      fst (MultiFetch example_package
             (answering (example_response 0 [example_topic ''events'' [example_partition 0 0 None]]))
             (example_MultiFetchRequest 1000 [(''events'', [example_spec 0])]) []) = Inr mret \<and>
      Responses mret = Some m \<and> m ''events'' = Some prs \<and> length prs = 1 \<and>
      (\<forall>pr \<in> set prs. FetchPartitionResponse.Records pr \<noteq> None))"
proof (rule conjI)
  let ?res = "example_response 0 [example_topic ''events'' [example_partition 0 0 None]]"
  let ?t = "example_topic ''events'' [example_partition 0 0 None]"
  have r: "reply (answering ?res) w = Inr ?res" for w
    by (simp add: answering_def)
  have t: "elems (Response.Topics ?res) = ?t # []"
    by (simp add: example_response_def elems_def)
  have p: "ResponseTopic.Partitions ?t = example_partition 0 0 None # []"
    by (simp add: example_topic_def)
  have n: "RecordSet_Records (example_partition 0 0 None) = None"
    by (simp add: example_partition_def)
  from Fetch_ok [OF r t p, of example_package "example_FetchRequest 1" "[]"]
  obtain ret where ret: "fst (Fetch example_package (answering ?res) (example_FetchRequest 1) []) = Inr ret"
    and rec: "FetchResponse.Records ret = Some NewRecordReader"
    by (simp add: n)
  have "FetchResponse.Records ret \<noteq> None"
    by (rule Records_never_nil [of example_package "answering ?res" "example_FetchRequest 1" "[]" ret,
          THEN conjunct1, THEN mp, OF ret, THEN conjunct1])
  with ret rec show "\<exists>ret. fst (Fetch example_package (answering ?res) (example_FetchRequest 1) []) = Inr ret \<and>
          FetchResponse.Records ret \<noteq> None \<and> FetchResponse.Records ret = Some NewRecordReader"
    by blast
next
  let ?res = "example_response 0 [example_topic ''events'' [example_partition 0 0 None]]"
  let ?t = "example_topic ''events'' [example_partition 0 0 None]"
  let ?req = "example_MultiFetchRequest 1000 [(''events'', [example_spec 0])]"
  let ?prs = "[MultiFetch_partitionResponse (example_partition 0 0 None)]"
  have r: "reply (answering ?res) w = Inr ?res" for w
    by (simp add: answering_def)
  have ne: "Requests ?req \<noteq> []"
    by (simp add: example_MultiFetchRequest_def)
  have ts: "Response.Topics ?res = Some [?t]"
    by (simp add: example_response_def)
  have m: "MultiFetch_responses [?t] ''events'' = Some ?prs"
    by (simp add: MultiFetch_responses_def example_topic_def)
  from MultiFetch_ok [OF ne r, of example_package "[]"] ts
  obtain mret where mret: "fst (MultiFetch example_package (answering ?res) ?req []) = Inr mret"
    and resp: "Responses mret = Some (MultiFetch_responses [?t])"
    by simp
  have "\<forall>pr \<in> set ?prs. FetchPartitionResponse.Records pr \<noteq> None"
    by (rule Records_never_nil [where pkg = example_package and c = "answering ?res"
          and mreq = ?req and sent = "[]" and mret = mret and m = "MultiFetch_responses [?t]"
          and name = "''events''" and prs = ?prs,
          THEN conjunct2, THEN mp, OF conjI [OF mret conjI [OF resp m]], THEN conjunct1])
  with mret resp m show "\<exists>mret m prs.
      fst (MultiFetch example_package (answering ?res) ?req []) = Inr mret \<and>
      Responses mret = Some m \<and> m ''events'' = Some prs \<and> length prs = 1 \<and>
      (\<forall>pr \<in> set prs. FetchPartitionResponse.Records pr \<noteq> None)"
    by (intro exI [of _ mret] exI [of _ "MultiFetch_responses [?t]"] exI [of _ ?prs]) simp
qed

subsection \<open>C5: \<open>size\<close> and \<open>writeTo\<close>\<close>

lemma agrees_word: "agrees sz w \<Longrightarrow> sz = of_nat (emitted w wb)"
  unfolding agrees_def emitted_def by auto

lemma example_messageSet_agrees: "messageSet_agrees example_messageSet"
  unfolding messageSet_agrees_def
  by (intro allI agreesI [where k = "length m" for m]) (simp_all add: example_messageSet_def)

text \<open>
  Claim C5, as amended. Let the two methods of \<open>messageSet\<close> agree. For every value of each
  of the six wire types, \<open>size()\<close> is the number of bytes that \<open>writeTo\<close> adds to the
  buffer, taken modulo \<open>2 ^ 32\<close> as an \<open>int32\<close>; so the two numbers are equal whenever fewer
  than \<open>2 ^ 31\<close> bytes are written, empty strings, empty arrays and fields of -1 included.
  A \<open>fetchRequestPartitionV2\<close> always has 16 bytes.
\<close>

theorem size_is_the_number_of_bytes_written:
  assumes "messageSet_agrees ms"
  shows "fetchRequestV2_size r = of_nat (emitted (fetchRequestV2_writeTo r) wb) \<and>
         (emitted (fetchRequestV2_writeTo r) wb < 2 ^ 31 \<longrightarrow>
            sint (fetchRequestV2_size r) = int (emitted (fetchRequestV2_writeTo r) wb)) \<and>
         fetchRequestTopicV2_size t = of_nat (emitted (fetchRequestTopicV2_writeTo t) wb) \<and>
         (emitted (fetchRequestTopicV2_writeTo t) wb < 2 ^ 31 \<longrightarrow>
            sint (fetchRequestTopicV2_size t) = int (emitted (fetchRequestTopicV2_writeTo t) wb)) \<and>
         sint (fetchRequestPartitionV2_size p) = int (emitted (fetchRequestPartitionV2_writeTo p) wb) \<and>
         fetchResponseV2_size ms r' = of_nat (emitted (fetchResponseV2_writeTo ms r') wb) \<and>
         (emitted (fetchResponseV2_writeTo ms r') wb < 2 ^ 31 \<longrightarrow>
            sint (fetchResponseV2_size ms r') = int (emitted (fetchResponseV2_writeTo ms r') wb)) \<and>
         fetchResponseTopicV2_size ms t' = of_nat (emitted (fetchResponseTopicV2_writeTo ms t') wb) \<and>
         (emitted (fetchResponseTopicV2_writeTo ms t') wb < 2 ^ 31 \<longrightarrow>
            sint (fetchResponseTopicV2_size ms t') = int (emitted (fetchResponseTopicV2_writeTo ms t') wb)) \<and>
         fetchResponsePartitionV2_size ms p' =
            of_nat (emitted (fetchResponsePartitionV2_writeTo ms p') wb) \<and>
         (emitted (fetchResponsePartitionV2_writeTo ms p') wb < 2 ^ 31 \<longrightarrow>
            sint (fetchResponsePartitionV2_size ms p') =
              int (emitted (fetchResponsePartitionV2_writeTo ms p') wb))"
proof (intro conjI impI)
  have "emitted (fetchRequestPartitionV2_writeTo p) wb < 2 ^ 31"
    by (simp add: emitted_def partition_length)
  then show "sint (fetchRequestPartitionV2_size p) = int (emitted (fetchRequestPartitionV2_writeTo p) wb)"
    by (rule agrees_emitted [OF partition_agrees])
  show "fetchRequestV2_size r = of_nat (emitted (fetchRequestV2_writeTo r) wb)"
    by (rule agrees_word [OF request_agrees])
  show "fetchRequestTopicV2_size t = of_nat (emitted (fetchRequestTopicV2_writeTo t) wb)"
    by (rule agrees_word [OF request_topic_agrees])
  show "fetchResponseV2_size ms r' = of_nat (emitted (fetchResponseV2_writeTo ms r') wb)"
    by (rule agrees_word [OF response_agrees [OF assms]])
  show "fetchResponseTopicV2_size ms t' = of_nat (emitted (fetchResponseTopicV2_writeTo ms t') wb)"
    by (rule agrees_word [OF response_topic_agrees [OF assms]])
  show "fetchResponsePartitionV2_size ms p' =
          of_nat (emitted (fetchResponsePartitionV2_writeTo ms p') wb)"
    by (rule agrees_word [OF response_partition_agrees [OF assms]])
qed (erule agrees_emitted [OF request_agrees] agrees_emitted [OF request_topic_agrees]
       agrees_emitted [OF response_agrees [OF assms]]
       agrees_emitted [OF response_topic_agrees [OF assms]]
       agrees_emitted [OF response_partition_agrees [OF assms]])+

text \<open>
  A request for one partition of \<open>events\<close> takes 44 bytes, a topic with an empty name and
  no partition takes 6, and a response partition with a message set of 3 bytes takes 21.
\<close>

theorem size_is_the_number_of_bytes_written_witness:
  "messageSet_agrees example_messageSet \<and>
   emitted (fetchRequestV2_writeTo
     \<lparr>fetchRequestV2.ReplicaID = - 1, MaxWaitTime = 500, MinBytes = 1,
      Topics = [\<lparr>fetchRequestTopicV2.TopicName = ''events'', Partitions = [example_partitionV2]\<rparr>]\<rparr>) [] = 44 \<and>
   sint (fetchRequestV2_size
     \<lparr>fetchRequestV2.ReplicaID = - 1, MaxWaitTime = 500, MinBytes = 1,
      Topics = [\<lparr>fetchRequestTopicV2.TopicName = ''events'', Partitions = [example_partitionV2]\<rparr>]\<rparr>) = 44 \<and>
   emitted (fetchRequestTopicV2_writeTo \<lparr>fetchRequestTopicV2.TopicName = [], Partitions = []\<rparr>) [] = 6 \<and>
   sint (fetchRequestTopicV2_size \<lparr>fetchRequestTopicV2.TopicName = [], Partitions = []\<rparr>) = 6 \<and>
   emitted (fetchResponsePartitionV2_writeTo example_messageSet
     \<lparr>fetchResponsePartitionV2.Partition = 0, ErrorCode = 0, HighwaterMarkOffset = 100,
      MessageSetSize = 3, MessageSet = [1, 2, 3]\<rparr>) [] = 21 \<and>
   sint (fetchResponsePartitionV2_size example_messageSet
     \<lparr>fetchResponsePartitionV2.Partition = 0, ErrorCode = 0, HighwaterMarkOffset = 100,
      MessageSetSize = 3, MessageSet = [1, 2, 3]\<rparr>) = 21"
proof -
  let ?r = "\<lparr>fetchRequestV2.ReplicaID = - 1, MaxWaitTime = 500, MinBytes = 1,
      Topics = [\<lparr>fetchRequestTopicV2.TopicName = ''events'', Partitions = [example_partitionV2]\<rparr>]\<rparr>"
  let ?t = "\<lparr>fetchRequestTopicV2.TopicName = [], Partitions = []\<rparr>"
  let ?p = "\<lparr>fetchResponsePartitionV2.Partition = 0, ErrorCode = 0, HighwaterMarkOffset = 100,
      MessageSetSize = 3, MessageSet = [1, 2, 3 :: byte]\<rparr>"
  note T = size_is_the_number_of_bytes_written [OF example_messageSet_agrees,
      where r = ?r and t = ?t and p' = ?p and wb = "[]"]
  have r: "emitted (fetchRequestV2_writeTo ?r) [] = 44"
    by (simp add: emitted_def fetchRequestV2_writeTo_def writeArray_def
          request_topic_length length_writeInt32)
  have t: "emitted (fetchRequestTopicV2_writeTo ?t) [] = 6"
    by (simp add: emitted_def request_topic_length)
  have p: "emitted (fetchResponsePartitionV2_writeTo example_messageSet ?p) [] = 21"
    by (simp add: emitted_def fetchResponsePartitionV2_writeTo_def example_messageSet_def
          length_writeInt16 length_writeInt32 length_writeInt64)
  from T r have "sint (fetchRequestV2_size ?r) = 44" by simp
  moreover from T t have "sint (fetchRequestTopicV2_size ?t) = 6" by simp
  moreover from T p have "sint (fetchResponsePartitionV2_size example_messageSet ?p) = 21" by simp
  ultimately show ?thesis
    using example_messageSet_agrees r t p by simp
qed

text \<open>
  Claim C5 as stated fails once the bytes written no longer fit the \<open>int32\<close> that \<open>size()\<close>
  returns. A topic with \<open>2 ^ 27\<close> partitions is written as \<open>2 ^ 31 + 6\<close> bytes, and its
  \<open>size()\<close> is \<open>6 - 2 ^ 31\<close>.
\<close>

theorem oversized_topic_size_wraps:
  "sint (fetchRequestTopicV2_size
           \<lparr>fetchRequestTopicV2.TopicName = [],
            Partitions = replicate (2 ^ 27) example_partitionV2\<rparr>) = - 2147483642 \<and>
   emitted (fetchRequestTopicV2_writeTo
           \<lparr>fetchRequestTopicV2.TopicName = [],
            Partitions = replicate (2 ^ 27) example_partitionV2\<rparr>) [] = 2147483654"
  by (simp add: request_topic_size emitted_def request_topic_length)

subsection \<open>C6: the \<open>PartitionMaxBytes\<close> of a \<open>MultiFetch\<close>\<close>

text \<open>
  Claim C6, as amended. A \<open>MultiFetchRequest\<close> with at least one topic is sent as one wire
  request with one wire topic for each entry of the map and one wire partition for each
  partition spec, in order. The \<open>PartitionMaxBytes\<close> of a wire partition is the \<open>int32\<close>
  conversion of the spec's \<open>MaxBytes\<close> when that is not zero, negative values included,
  and of the request's \<open>MaxBytes\<close> when it is zero; the conversion keeps every value that
  fits in 32 bits.
\<close>

theorem MultiFetch_PartitionMaxBytes:
  assumes "Requests req \<noteq> []"
  shows "\<exists>w. snd (MultiFetch pkg c req sent) = sent @ [w] \<and>
     length (Request.Topics w) = length (Requests req) \<and>
     (\<forall>i < length (Requests req).
        RequestTopic.Topic (Request.Topics w ! i) = fst (Requests req ! i) \<and>
        length (RequestTopic.Partitions (Request.Topics w ! i)) = length (snd (Requests req ! i)) \<and>
        (\<forall>j < length (snd (Requests req ! i)).
           \<exists>v. v = (if FetchPartitionRequest.MaxBytes (snd (Requests req ! i) ! j) \<noteq> 0
                    then FetchPartitionRequest.MaxBytes (snd (Requests req ! i) ! j)
                    else MultiFetchRequest.MaxBytes req) \<and>
               PartitionMaxBytes (RequestTopic.Partitions (Request.Topics w ! i) ! j) = ucast v \<and>
               (- (2 ^ 31) \<le> sint v \<and> sint v < 2 ^ 31 \<longrightarrow>
                  sint (PartitionMaxBytes (RequestTopic.Partitions (Request.Topics w ! i) ! j)) = sint v)))"
  by (simp add: MultiFetch_sent [OF assms] MultiFetch_request_def MultiFetch_requestTopics_def
        MultiFetch_requestPartition_def Let_def narrow_fits split_beta)

text \<open>
  A request of at most 1000 bytes for two partitions, the first with no limit of its own
  and the second with a limit of 64 bytes.
\<close>

theorem MultiFetch_PartitionMaxBytes_witness:
  "Requests (example_MultiFetchRequest 1000 [(''a'', [example_spec 0, example_spec 64])]) \<noteq> [] \<and>
   (\<exists>w. snd (MultiFetch example_package (answering (example_response 0 []))
               (example_MultiFetchRequest 1000 [(''a'', [example_spec 0, example_spec 64])]) []) = [w] \<and>
        map (map (sint \<circ> PartitionMaxBytes) \<circ> RequestTopic.Partitions) (Request.Topics w) = [[1000, 64]])"
proof -
  let ?req = "example_MultiFetchRequest 1000 [(''a'', [example_spec 0, example_spec 64])]"
  have ne: "Requests ?req \<noteq> []"
    by (simp add: example_MultiFetchRequest_def)
  from MultiFetch_PartitionMaxBytes [OF ne, of example_package "answering (example_response 0 [])" "[]"]
  obtain w where w: "snd (MultiFetch example_package (answering (example_response 0 [])) ?req []) = [] @ [w]"
    by blast
  then have "w = MultiFetch_request example_package
       (MultiFetch_timeout example_package (answering (example_response 0 [])) ?req) ?req
       (MultiFetch_requestTopics ?req)"
    by (simp add: MultiFetch_sent [OF ne])
  then have "map (map (sint \<circ> PartitionMaxBytes) \<circ> RequestTopic.Partitions) (Request.Topics w) = [[1000, 64]]"
    by (simp add: MultiFetch_request_def MultiFetch_requestTopics_def
          MultiFetch_requestPartition_def example_MultiFetchRequest_def example_spec_def narrow_sint)
  with ne w show ?thesis by simp
qed

text \<open>
  Claim C6 as stated fails for a negative \<open>MaxBytes\<close>: the test of \<open>MultiFetch\<close> is
  \<open>maxBytes == 0\<close>. A spec with \<open>MaxBytes\<close> -1 in a request with \<open>MaxBytes\<close> 1000 goes on
  the wire with \<open>PartitionMaxBytes\<close> -1, not 1000.
\<close>

theorem MultiFetch_keeps_negative_MaxBytes:
  "FetchPartitionRequest.MaxBytes (example_spec (- 1)) = - 1 \<and>
   MultiFetchRequest.MaxBytes (example_MultiFetchRequest 1000 [(''a'', [example_spec (- 1)])]) = 1000 \<and>
   map (map (sint \<circ> PartitionMaxBytes) \<circ> RequestTopic.Partitions)
     (Request.Topics (last (snd (MultiFetch example_package (answering (example_response 0 []))
        (example_MultiFetchRequest 1000 [(''a'', [example_spec (- 1)])]) [])))) = [[- 1]]"
  by (simp add: MultiFetch_def roundTrip_def Let_def MultiFetch_request_def MultiFetch_requestTopics_def
        MultiFetch_requestPartition_def example_MultiFetchRequest_def example_spec_def answering_def
        narrow_sint)

subsection \<open>C7: the \<open>MaxWaitTime\<close> on the wire\<close>

text \<open>
  Claim C7. \<open>Fetch\<close> always sends one request, and \<open>MultiFetch\<close> sends one when its map
  has a topic. The \<open>MaxWaitTime\<close> of that request is \<open>milliseconds\<close> of a duration that is
  the minimum of what \<open>c.timeout\<close> returned, the time left to the context, and the
  effective \<open>MaxWait\<close>: the request's \<open>MaxWait\<close> when it is greater than zero and
  \<open>defaultMaxWait\<close> otherwise.
\<close>

theorem MaxWaitTime_is_the_minimum:
  "(\<exists>w d. snd (Fetch pkg c req sent) = sent @ [w] \<and>
       Request.MaxWaitTime w = milliseconds pkg d \<and>
       sint d = min (sint (Client.timeout c))
                    (sint (if 0 < sint (FetchRequest.MaxWait req)
                           then FetchRequest.MaxWait req else defaultMaxWait pkg))) \<and>
   (Requests mreq \<noteq> [] \<longrightarrow>
      (\<exists>w d. snd (MultiFetch pkg c mreq sent) = sent @ [w] \<and>
         Request.MaxWaitTime w = milliseconds pkg d \<and>
         sint d = min (sint (Client.timeout c))
                      (sint (if 0 < sint (MultiFetchRequest.MaxWait mreq)
                             then MultiFetchRequest.MaxWait mreq else defaultMaxWait pkg))))"
proof (intro conjI impI)
  have "sint (Fetch_timeout pkg c req) = min (sint (Client.timeout c))
                    (sint (if 0 < sint (FetchRequest.MaxWait req)
                           then FetchRequest.MaxWait req else defaultMaxWait pkg))"
    by (simp add: Fetch_timeout_def FetchRequest_maxWait_def Let_def word_sless_alt min_def)
  then show "\<exists>w d. snd (Fetch pkg c req sent) = sent @ [w] \<and>
       Request.MaxWaitTime w = milliseconds pkg d \<and>
       sint d = min (sint (Client.timeout c))
                    (sint (if 0 < sint (FetchRequest.MaxWait req)
                           then FetchRequest.MaxWait req else defaultMaxWait pkg))"
    by (intro exI [of _ "Fetch_request pkg (Fetch_timeout pkg c req) req"]
          exI [of _ "Fetch_timeout pkg c req"])
       (simp add: Fetch_sent Fetch_request_def)
next
  assume ne: "Requests mreq \<noteq> []"
  have "sint (MultiFetch_timeout pkg c mreq) = min (sint (Client.timeout c))
                      (sint (if 0 < sint (MultiFetchRequest.MaxWait mreq)
                             then MultiFetchRequest.MaxWait mreq else defaultMaxWait pkg))"
    by (simp add: MultiFetch_timeout_def MultiFetchRequest_maxWait_def Let_def word_sless_alt min_def)
  then show "\<exists>w d. snd (MultiFetch pkg c mreq sent) = sent @ [w] \<and>
         Request.MaxWaitTime w = milliseconds pkg d \<and>
         sint d = min (sint (Client.timeout c))
                      (sint (if 0 < sint (MultiFetchRequest.MaxWait mreq)
                             then MultiFetchRequest.MaxWait mreq else defaultMaxWait pkg))"
    by (intro exI [of _ "MultiFetch_request pkg (MultiFetch_timeout pkg c mreq) mreq
                           (MultiFetch_requestTopics mreq)"]
          exI [of _ "MultiFetch_timeout pkg c mreq"])
       (simp add: MultiFetch_sent [OF ne] MultiFetch_request_def)
qed

text \<open>
  No deadline, a \<open>MaxWait\<close> of 500ms for \<open>Fetch\<close> and none for \<open>MultiFetch\<close>, which falls
  back on the default of 500ms: both requests wait 500 milliseconds.
\<close>

theorem MaxWaitTime_is_the_minimum_witness:
  "(\<exists>w. snd (Fetch example_package (answering (example_response 0 [])) (example_FetchRequest 1) []) = [w] \<and>
        Request.MaxWaitTime w = 500) \<and>
   Requests (example_MultiFetchRequest 1000 [(''a'', [example_spec 0])]) \<noteq> [] \<and>
   (\<exists>w. snd (MultiFetch example_package (answering (example_response 0 []))
               (example_MultiFetchRequest 1000 [(''a'', [example_spec 0])]) []) = [w] \<and>
        Request.MaxWaitTime w = 500)"
proof -
  let ?c = "answering (example_response 0 [])"
  let ?mreq = "example_MultiFetchRequest 1000 [(''a'', [example_spec 0])]"
  have ne: "Requests ?mreq \<noteq> []"
    by (simp add: example_MultiFetchRequest_def)
  have ms: "milliseconds example_package d = 500" if "sint d = 500000000" for d
  proof -
    from that have "sint d = sint (500000000 :: 64 word)" by simp
    then have "d = 500000000" by (rule signed_word_eqI)
    then show ?thesis by (simp add: example_package_def example_milliseconds_def)
  qed
  note T = MaxWaitTime_is_the_minimum [of example_package ?c "example_FetchRequest 1" "[]" ?mreq]
  from T obtain w d where
    w: "snd (Fetch example_package ?c (example_FetchRequest 1) []) = [] @ [w]"
    "Request.MaxWaitTime w = milliseconds example_package d"
    and d: "sint d = min (sint (Client.timeout ?c))
                    (sint (if 0 < sint (FetchRequest.MaxWait (example_FetchRequest 1))
                           then FetchRequest.MaxWait (example_FetchRequest 1)
                           else defaultMaxWait example_package))"
    by blast
  from d have "sint d = 500000000"
    by (simp add: answering_def example_FetchRequest_def)
  with w have 1: "\<exists>w. snd (Fetch example_package ?c (example_FetchRequest 1) []) = [w] \<and>
        Request.MaxWaitTime w = 500"
    by (simp add: ms)
  from T ne obtain w' d' where
    w': "snd (MultiFetch example_package ?c ?mreq []) = [] @ [w']"
    "Request.MaxWaitTime w' = milliseconds example_package d'"
    and d': "sint d' = min (sint (Client.timeout ?c))
                      (sint (if 0 < sint (MultiFetchRequest.MaxWait ?mreq)
                             then MultiFetchRequest.MaxWait ?mreq else defaultMaxWait example_package))"
    by blast
  from d' have "sint d' = 500000000"
    by (simp add: answering_def example_MultiFetchRequest_def example_package_def)
  with w' have 2: "\<exists>w. snd (MultiFetch example_package ?c ?mreq []) = [w] \<and>
        Request.MaxWaitTime w = 500"
    by (simp add: ms)
  from 1 ne 2 show ?thesis by blast
qed

subsection \<open>C8: the topic and partition of a \<open>FetchResponse\<close>\<close>

text \<open>
  Claim C8 says that the topic and partition of a successful result are those of the
  request. \<open>Fetch\<close> copies them from the first topic and partition of the broker's answer
  and never compares them with the request: asked for partition 0 of \<open>events\<close> and
  answered about partition 7 of \<open>other\<close>, it succeeds with topic \<open>other\<close> and partition 7.
  With a broker that answers about the partition it was asked for, a request for
  partition \<open>2 ^ 32\<close> goes on the wire as partition 0 and comes back as partition 0.
\<close>

theorem Fetch_returns_the_topic_of_the_reply:
  "FetchRequest.Topic (example_FetchRequest 1) = ''events'' \<and>
   FetchRequest.Partition (example_FetchRequest 1) = 0 \<and>
   map_sum id FetchResponse.Topic
     (fst (Fetch example_package
            (answering (example_response 0 [example_topic ''other'' [example_partition 7 0 None]]))
            (example_FetchRequest 1) [])) = Inr ''other'' \<and>
   map_sum id FetchResponse.Partition
     (fst (Fetch example_package
            (answering (example_response 0 [example_topic ''other'' [example_partition 7 0 None]]))
            (example_FetchRequest 1) [])) = Inr 7 \<and>
   map_sum id FetchResponse.Partition
     (fst (Fetch example_package echoing
            ((example_FetchRequest 1)\<lparr>FetchRequest.Partition := 4294967296\<rparr>) [])) = Inr 0"
  by (simp add: Fetch_def roundTrip_def Let_def answering_def example_response_def
        example_topic_def example_partition_def example_FetchRequest_def elems_def
        echoing_def echo_topic_def echo_partition_def Fetch_request_def)

subsection \<open>C9: the \<open>Responses\<close> of a \<open>MultiFetch\<close>\<close>

text \<open>
  Claim C9, as amended. When \<open>MultiFetch\<close> succeeds on an answer with a slice of topics,
  \<open>Responses\<close> has an entry under the name of every topic of the answer, and every entry
  comes from a topic of the answer with that name. The entry under a name is the list of
  the partition responses of the last topic of the answer with that name, in decoded
  order. When the names of the answer are distinct, every topic has its own partition
  responses under its name.
\<close>

theorem MultiFetch_Responses_by_topic_name:
  assumes "Requests req \<noteq> []"
    and "reply c (MultiFetch_request pkg (MultiFetch_timeout pkg c req) req
                   (MultiFetch_requestTopics req)) = Inr res"
    and "Response.Topics res = Some ts"
  shows "\<exists>ret m. fst (MultiFetch pkg c req sent) = Inr ret \<and> Responses ret = Some m \<and>
     (\<forall>t \<in> set ts. m (ResponseTopic.Topic t) \<noteq> None) \<and>
     (\<forall>name prs. m name = Some prs \<longrightarrow>
        (\<exists>t \<in> set ts. ResponseTopic.Topic t = name \<and>
           prs = map MultiFetch_partitionResponse (ResponseTopic.Partitions t))) \<and>
     (\<forall>name. m name =
        (case find (\<lambda>t. ResponseTopic.Topic t = name) (rev ts) of
           None \<Rightarrow> None
         | Some t \<Rightarrow> Some (map MultiFetch_partitionResponse (ResponseTopic.Partitions t)))) \<and>
     (distinct (map ResponseTopic.Topic ts) \<longrightarrow>
        (\<forall>t \<in> set ts. m (ResponseTopic.Topic t) =
           Some (map MultiFetch_partitionResponse (ResponseTopic.Partitions t))))"
proof (intro exI conjI)
  show "fst (MultiFetch pkg c req sent) =
     Inr \<lparr>MultiFetchResponse.Throttle = makeDuration pkg (ThrottleTimeMs res),
           Responses = Some (MultiFetch_responses ts),
           Error = makeError (Response.ErrorCode res) []\<rparr>"
    by (simp add: MultiFetch_ok [OF assms(1,2)] assms(3))
  show "Responses \<lparr>MultiFetchResponse.Throttle = makeDuration pkg (ThrottleTimeMs res),
           Responses = Some (MultiFetch_responses ts),
           Error = makeError (Response.ErrorCode res) []\<rparr> = Some (MultiFetch_responses ts)"
    by simp
  show "\<forall>t \<in> set ts. MultiFetch_responses ts (ResponseTopic.Topic t) \<noteq> None"
    by (simp add: MultiFetch_responses_entry)
  show "\<forall>name prs. MultiFetch_responses ts name = Some prs \<longrightarrow>
        (\<exists>t \<in> set ts. ResponseTopic.Topic t = name \<and>
           prs = map MultiFetch_partitionResponse (ResponseTopic.Partitions t))"
    by (blast dest: MultiFetch_responses_from)
  show "\<forall>name. MultiFetch_responses ts name =
        (case find (\<lambda>t. ResponseTopic.Topic t = name) (rev ts) of
           None \<Rightarrow> None
         | Some t \<Rightarrow> Some (map MultiFetch_partitionResponse (ResponseTopic.Partitions t)))"
    by (simp add: MultiFetch_responses_find)
  show "distinct (map ResponseTopic.Topic ts) \<longrightarrow>
        (\<forall>t \<in> set ts. MultiFetch_responses ts (ResponseTopic.Topic t) =
           Some (map MultiFetch_partitionResponse (ResponseTopic.Partitions t)))"
    by (simp add: MultiFetch_responses_distinct)
qed

text \<open>
  The answer of the spec's scenario: topics \<open>a\<close> and \<open>b\<close> with one partition each, the
  partition of \<open>b\<close> with an error code.
\<close>

theorem MultiFetch_Responses_by_topic_name_witness:
  "\<exists>ret m.
     fst (MultiFetch example_package
            (answering (example_response 0
               [example_topic ''a'' [example_partition 0 0 None],
                example_topic ''b'' [example_partition 1 6 None]]))
            (example_MultiFetchRequest 1000 [(''a'', [example_spec 0]), (''b'', [example_spec 0])]) [])
       = Inr ret \<and>
     Responses ret = Some m \<and>
     m ''a'' = Some [MultiFetch_partitionResponse (example_partition 0 0 None)] \<and>
     m ''b'' = Some [MultiFetch_partitionResponse (example_partition 1 6 None)]"
proof -
  let ?ts = "[example_topic ''a'' [example_partition 0 0 None],
              example_topic ''b'' [example_partition 1 6 None]]"
  let ?req = "example_MultiFetchRequest 1000 [(''a'', [example_spec 0]), (''b'', [example_spec 0])]"
  have ne: "Requests ?req \<noteq> []"
    by (simp add: example_MultiFetchRequest_def)
  have r: "reply (answering (example_response 0 ?ts)) w = Inr (example_response 0 ?ts)" for w
    by (simp add: answering_def)
  have ts: "Response.Topics (example_response 0 ?ts) = Some ?ts"
    by (simp add: example_response_def)
  have d: "distinct (map ResponseTopic.Topic ?ts)"
    by (simp add: example_topic_def)
  from MultiFetch_Responses_by_topic_name [OF ne r ts, of example_package "[]"]
  obtain ret m where ret: "fst (MultiFetch example_package (answering (example_response 0 ?ts)) ?req []) = Inr ret"
    and m: "Responses ret = Some m"
    and each: "distinct (map ResponseTopic.Topic ?ts) \<longrightarrow>
        (\<forall>t \<in> set ?ts. m (ResponseTopic.Topic t) =
           Some (map MultiFetch_partitionResponse (ResponseTopic.Partitions t)))"
    by blast
  from each d have "\<forall>t \<in> set ?ts. m (ResponseTopic.Topic t) =
           Some (map MultiFetch_partitionResponse (ResponseTopic.Partitions t))" ..
  then have "m ''a'' = Some [MultiFetch_partitionResponse (example_partition 0 0 None)]"
    and "m ''b'' = Some [MultiFetch_partitionResponse (example_partition 1 6 None)]"
    by (simp_all add: example_topic_def)
  with ret m show ?thesis by blast
qed

text \<open>
  Claim C9 as stated fails when the answer holds two topics with one name: the
  assignment \<open>ret.Responses[t.Topic] = partitions\<close> of the second replaces the list of the
  first. Of partition 0 and partition 1, both decoded for \<open>a\<close>, only partition 1 is found
  under \<open>a\<close>.
\<close>

theorem MultiFetch_later_topic_replaces_earlier:
  "fst (MultiFetch example_package
          (answering (example_response 0
             [example_topic ''a'' [example_partition 0 0 None],
              example_topic ''a'' [example_partition 1 0 None]]))
          (example_MultiFetchRequest 1000 [(''a'', [example_spec 0])]) [])
     = Inr \<lparr>MultiFetchResponse.Throttle = 0,
            Responses = Some (MultiFetch_responses
              [example_topic ''a'' [example_partition 0 0 None],
               example_topic ''a'' [example_partition 1 0 None]]),
            Error = None\<rparr> \<and>
   map_option (map FetchPartitionResponse.Partition)
     (MultiFetch_responses
        [example_topic ''a'' [example_partition 0 0 None],
         example_topic ''a'' [example_partition 1 0 None]] ''a'') = Some [1]"
  by (simp add: MultiFetch_def roundTrip_def Let_def MultiFetch_requestTopics_def
        example_MultiFetchRequest_def answering_def example_response_def makeError_def
        example_package_def example_makeDuration_def
        MultiFetch_responses_def example_topic_def MultiFetch_partitionResponse_def
        example_partition_def)

subsection \<open>C10: \<open>MinBytes\<close> and \<open>MaxBytes\<close> on the wire\<close>

text \<open>
  Claim C10. The \<open>MinBytes\<close> and \<open>MaxBytes\<close> of the wire request are the 64-bit fields of
  the caller reduced modulo \<open>2 ^ 32\<close>, for \<open>Fetch\<close> and for \<open>MultiFetch\<close>. The request is
  sent all the same, and the value is not clamped: a field of \<open>2 ^ 31\<close> goes on the wire
  as \<open>- (2 ^ 31)\<close>.
\<close>

theorem MinBytes_MaxBytes_are_narrowed:
  "(\<exists>w. snd (Fetch pkg c req sent) = sent @ [w] \<and>
      uint (Request.MinBytes w) = uint (FetchRequest.MinBytes req) mod 2 ^ 32 \<and>
      uint (Request.MaxBytes w) = uint (FetchRequest.MaxBytes req) mod 2 ^ 32 \<and>
      (sint (FetchRequest.MinBytes req) = 2 ^ 31 \<longrightarrow> sint (Request.MinBytes w) = - (2 ^ 31)) \<and>
      (sint (FetchRequest.MaxBytes req) = 2 ^ 31 \<longrightarrow> sint (Request.MaxBytes w) = - (2 ^ 31))) \<and>
   (Requests mreq \<noteq> [] \<longrightarrow>
      (\<exists>w. snd (MultiFetch pkg c mreq sent) = sent @ [w] \<and>
         uint (Request.MinBytes w) = uint (MultiFetchRequest.MinBytes mreq) mod 2 ^ 32 \<and>
         uint (Request.MaxBytes w) = uint (MultiFetchRequest.MaxBytes mreq) mod 2 ^ 32 \<and>
         (sint (MultiFetchRequest.MinBytes mreq) = 2 ^ 31 \<longrightarrow> sint (Request.MinBytes w) = - (2 ^ 31)) \<and>
         (sint (MultiFetchRequest.MaxBytes mreq) = 2 ^ 31 \<longrightarrow> sint (Request.MaxBytes w) = - (2 ^ 31))))"
proof -
  have n: "sint (ucast v :: 32 word) = - (2 ^ 31)" if "sint v = 2 ^ 31" for v :: "64 word"
    using that by (simp add: narrow_sint)
  show ?thesis
    by (simp add: Fetch_sent MultiFetch_sent Fetch_request_def MultiFetch_request_def narrow_uint n)
qed

theorem MinBytes_MaxBytes_are_narrowed_witness:
  "sint (FetchRequest.MinBytes (example_FetchRequest 2147483648)) = 2147483648 \<and>
   (\<exists>w. snd (Fetch example_package (answering (example_response 0 []))
               (example_FetchRequest 2147483648) []) = [w] \<and>
        sint (Request.MinBytes w) = - 2147483648 \<and> sint (Request.MaxBytes w) = - 2147483648) \<and>
   Requests (example_MultiFetchRequest 2147483648 [(''a'', [example_spec 0])]) \<noteq> [] \<and>
   (\<exists>w. snd (MultiFetch example_package (answering (example_response 0 []))
               (example_MultiFetchRequest 2147483648 [(''a'', [example_spec 0])]) []) = [w] \<and>
        sint (Request.MinBytes w) = - 2147483648 \<and> sint (Request.MaxBytes w) = - 2147483648)"
  using MinBytes_MaxBytes_are_narrowed
    [of example_package "answering (example_response 0 [])" "example_FetchRequest 2147483648" "[]"
        "example_MultiFetchRequest 2147483648 [(''a'', [example_spec 0])]"]
  by (auto simp add: example_FetchRequest_def example_MultiFetchRequest_def)

end
